theory Spec2Isabelle
  imports Complex_Main "HOL-Library.Sublist" "HOL-Library.Log_Nat"
begin

section \<open>Values of the language\<close>

text \<open>
  A string of the program is modelled by the UTF-8 bytes of its code points, so a
  literal such as \<^verbatim>\<open>'10,50'\<close> is the HOL string of the same characters, and a
  character outside ASCII is the list of its bytes.  The operations the components use
  (emptiness, equality, replacing a comma, reading a decimal literal) see the same
  thing on either representation.
\<close>

subsection \<open>Numbers\<close>

text \<open>
  The Number type: the IEEE 754 binary64 values.  A finite value is carried as the
  rational it denotes; \<open>Finite 0\<close> is \<open>+0\<close>, and \<open>NegZero\<close> is \<open>-0\<close>.
\<close>

datatype number = NaN | PosInfinity | NegInfinity | NegZero | Finite rat

definition isNaN :: "number \<Rightarrow> bool" where
  "isNaN n = (n = NaN)"

definition isFinite :: "number \<Rightarrow> bool" where
  "isFinite n = (case n of Finite q \<Rightarrow> True | NegZero \<Rightarrow> True | _ \<Rightarrow> False)"

text \<open>The rational a finite number denotes (both zeros denote 0).\<close>

fun real_value :: "number \<Rightarrow> rat" where
  "real_value (Finite q) = q"
| "real_value _ = 0"

text \<open>The relational operator \<^verbatim>\<open><=\<close>: false as soon as an operand is NaN.\<close>

fun num_le :: "number \<Rightarrow> number \<Rightarrow> bool" where
  "num_le NaN y = False"
| "num_le x NaN = False"
| "num_le NegInfinity y = True"
| "num_le x PosInfinity = True"
| "num_le PosInfinity y = False"
| "num_le x NegInfinity = False"
| "num_le x y = (real_value x \<le> real_value y)"

text \<open>Unary minus, as the sign of a string literal applies it.\<close>

fun negate :: "number \<Rightarrow> number" where
  "negate NaN = NaN"
| "negate PosInfinity = NegInfinity"
| "negate NegInfinity = PosInfinity"
| "negate NegZero = Finite 0"
| "negate (Finite q) = (if q = 0 then NegZero else Finite (- q))"

definition pow2 :: "int \<Rightarrow> rat" where
  "pow2 k = (if 0 \<le> k then 2 ^ nat k else 1 / 2 ^ nat (- k))"

definition pow10 :: "int \<Rightarrow> rat" where
  "pow10 k = (if 0 \<le> k then 10 ^ nat k else 1 / 10 ^ nat (- k))"

text \<open>\<open>floor_log2 q\<close> is the \<open>e\<close> with \<open>2^e \<le> q < 2^(e+1)\<close>, for a positive \<open>q\<close>.\<close>

definition floor_log2 :: "rat \<Rightarrow> int" where
  "floor_log2 q =
     (let k = bitlen (fst (quotient_of q)) - bitlen (snd (quotient_of q))
      in if pow2 k \<le> q then k else k - 1)"

definition round_half_even :: "rat \<Rightarrow> int" where
  "round_half_even x =
     (let f = \<lfloor>x\<rfloor>; r = x - of_int f
      in if r < 1 / 2 then f
         else if 1 / 2 < r then f + 1
         else if even f then f else f + 1)"

text \<open>
  The Number value for a non-negative mathematical value: the nearest binary64 value,
  ties to the even significand; 53 bits of significand at the binade of \<open>q\<close>, the
  exponent of the last bit no lower than \<open>-1074\<close> (subnormals), and \<open>+\<infinity>\<close> from
  \<open>2^1024\<close> on.
\<close>

definition Number_value :: "rat \<Rightarrow> number" where
  "Number_value q =
     (if q \<le> 0 then Finite 0
      else
        let p = max (floor_log2 q) (- 1022) - 52;
            m = round_half_even (q / pow2 p);
            v = of_int m * pow2 p
        in if pow2 1024 \<le> v then PosInfinity else Finite v)"

subsection \<open>parseFloat\<close>

text \<open>
  \<^verbatim>\<open>parseFloat(string)\<close> trims leading white space and line terminators, takes the
  longest prefix of the rest that is a \<open>StrDecimalLiteral\<close> (an optional sign, then
  \<^verbatim>\<open>Infinity\<close> or decimal digits with an optional fraction and an optional exponent),
  and returns its Number value; NaN when no prefix is one.
\<close>

definition is_digit :: "char \<Rightarrow> bool" where
  "is_digit c = (48 \<le> (of_char c :: int) \<and> (of_char c :: int) \<le> 57)"

definition digit_value :: "char \<Rightarrow> int" where
  "digit_value c = of_char c - 48"

definition digits_value :: "string \<Rightarrow> int" where
  "digits_value ds = foldl (\<lambda>a c. 10 * a + digit_value c) 0 ds"

text \<open>
  White space and line terminators, each as its UTF-8 bytes: TAB, LF, VT, FF, CR, SP,
  U+00A0, U+1680, U+2000 to U+200A, U+2028, U+2029, U+202F, U+205F, U+3000, U+FEFF.
\<close>

definition is_ws1 :: "char \<Rightarrow> bool" where
  "is_ws1 c = (of_char c \<in> {9, 10, 11, 12, 13, 32 :: int})"

definition is_ws2 :: "char \<Rightarrow> char \<Rightarrow> bool" where
  "is_ws2 c d = ((of_char c :: int) = 0xC2 \<and> (of_char d :: int) = 0xA0)"

definition is_ws3 :: "char \<Rightarrow> char \<Rightarrow> char \<Rightarrow> bool" where
  "is_ws3 c d e =
     (let a = (of_char c :: int); b = (of_char d :: int); x = (of_char e :: int)
      in (a = 0xE1 \<and> b = 0x9A \<and> x = 0x80) \<or>
         (a = 0xE2 \<and> b = 0x80 \<and> (0x80 \<le> x \<and> x \<le> 0x8A \<or> x = 0xA8 \<or> x = 0xA9 \<or> x = 0xAF)) \<or>
         (a = 0xE2 \<and> b = 0x81 \<and> x = 0x9F) \<or>
         (a = 0xE3 \<and> b = 0x80 \<and> x = 0x80) \<or>
         (a = 0xEF \<and> b = 0xBB \<and> x = 0xBF))"

fun TrimStart :: "string \<Rightarrow> string" where
  "TrimStart (c # d # e # s) =
     (if is_ws1 c then TrimStart (d # e # s)
      else if is_ws2 c d then TrimStart (e # s)
      else if is_ws3 c d e then TrimStart s
      else c # d # e # s)"
| "TrimStart [c, d] =
     (if is_ws1 c then TrimStart [d] else if is_ws2 c d then [] else [c, d])"
| "TrimStart [c] = (if is_ws1 c then [] else [c])"
| "TrimStart [] = []"

definition SignedInteger :: "string \<Rightarrow> int option" where
  "SignedInteger s =
     (case s of
        [] \<Rightarrow> None
      | c # r \<Rightarrow>
          if c = CHR ''+'' then
            (if takeWhile is_digit r = [] then None
             else Some (digits_value (takeWhile is_digit r)))
          else if c = CHR ''-'' then
            (if takeWhile is_digit r = [] then None
             else Some (- digits_value (takeWhile is_digit r)))
          else if takeWhile is_digit s = [] then None
          else Some (digits_value (takeWhile is_digit s)))"

text \<open>The exponent of the longest \<open>ExponentPart\<close> that starts the string; 0 when none does.\<close>

definition ExponentPart :: "string \<Rightarrow> int" where
  "ExponentPart s =
     (case s of
        [] \<Rightarrow> 0
      | c # r \<Rightarrow>
          if c = CHR ''e'' \<or> c = CHR ''E'' then
            (case SignedInteger r of None \<Rightarrow> 0 | Some e \<Rightarrow> e)
          else 0)"

text \<open>
  The mathematical value of the longest prefix that is a decimal literal
  (\<open>digits . digits\<^sub>o\<^sub>p\<^sub>t exp\<^sub>o\<^sub>p\<^sub>t\<close>, \<open>. digits exp\<^sub>o\<^sub>p\<^sub>t\<close> or \<open>digits exp\<^sub>o\<^sub>p\<^sub>t\<close>); None when no
  prefix is one.
\<close>

definition decimal_prefix :: "string \<Rightarrow> rat option" where
  "decimal_prefix s =
     (let i = takeWhile is_digit s; r = dropWhile is_digit s
      in case r of
           [] \<Rightarrow> if i = [] then None else Some (of_int (digits_value i))
         | c # r1 \<Rightarrow>
             if c = CHR ''.'' then
               (let f = takeWhile is_digit r1; r2 = dropWhile is_digit r1
                in if i = [] \<and> f = [] then None
                   else Some (of_int (digits_value (i @ f)) *
                              pow10 (ExponentPart r2 - int (length f))))
             else if i = [] then None
             else Some (of_int (digits_value i) * pow10 (ExponentPart r)))"

definition StrUnsignedDecimalLiteral :: "string \<Rightarrow> number" where
  "StrUnsignedDecimalLiteral s =
     (if prefix ''Infinity'' s then PosInfinity
      else case decimal_prefix s of None \<Rightarrow> NaN | Some q \<Rightarrow> Number_value q)"

definition parseFloat :: "string \<Rightarrow> number" where
  "parseFloat inputString =
     (case TrimStart inputString of
        [] \<Rightarrow> NaN
      | c # r \<Rightarrow>
          if c = CHR ''-'' then negate (StrUnsignedDecimalLiteral r)
          else if c = CHR ''+'' then StrUnsignedDecimalLiteral r
          else StrUnsignedDecimalLiteral (c # r))"

text \<open>
  \<^verbatim>\<open>s.replace(p, r)\<close> for a pattern of one character and a replacement without
  \<^verbatim>\<open>$\<close>: only the first occurrence is replaced.
\<close>

fun replace :: "char \<Rightarrow> string \<Rightarrow> string \<Rightarrow> string" where
  "replace p r [] = []"
| "replace p r (c # s) = (if c = p then r @ s else c # replace p r s)"

section \<open>Data model\<close>

text \<open>The enumerations of \<^verbatim>\<open>integrations/supabase/types.ts\<close>.\<close>

datatype account_type = "checking" | savings | credit_card | wallet | investment

datatype transaction_type = income | expense | transfer

datatype transaction_status = pending | completed | cancelled

text \<open>The rows of the tables \<^verbatim>\<open>accounts\<close> and \<^verbatim>\<open>categories\<close> (\<^verbatim>\<open>T | null\<close> is an option).\<close>

record account =
  acc_balance :: "number option"
  acc_bank_name :: "string option"
  acc_closing_day :: "number option"
  acc_created_at :: "string option"
  acc_credit_limit :: "number option"
  acc_due_day :: "number option"
  acc_id :: string
  acc_is_active :: "bool option"
  acc_name :: string
  acc_type :: account_type
  acc_updated_at :: "string option"
  acc_user_id :: string

record category =
  cat_color :: "string option"
  cat_created_at :: "string option"
  cat_icon :: "string option"
  cat_id :: string
  cat_is_active :: "bool option"
  cat_name :: string
  cat_parent_id :: "string option"
  cat_transaction_type :: transaction_type
  cat_user_id :: string

text \<open>
  Modelled from the spec: the credit cards the hook \<^verbatim>\<open>useCreditCards\<close> returns, whose
  declaration is not among the sources: \<open>CreditCard: { id, name, bank_name }\<close>.
\<close>

record credit_card_row =
  card_id :: string
  card_name :: string
  card_bank_name :: string

text \<open>
  Modelled from the spec: an entry of the catalog \<^verbatim>\<open>defaultCategories\<close> of
  \<^verbatim>\<open>@/data/defaultCategories\<close>, which is not among the sources: \<open>{name, icon, color,
  transaction_type}\<close>.  The catalog itself is a parameter of what uses it.
\<close>

record default_category =
  dc_name :: string
  dc_icon :: string
  dc_color :: string
  dc_transaction_type :: transaction_type

text \<open>The form's \<^verbatim>\<open>type\<close> state has the type \<^verbatim>\<open>'income' | 'expense'\<close>.\<close>

datatype direction = Income | Expense

fun type_string :: "direction \<Rightarrow> transaction_type" where
  "type_string Income = income"
| "type_string Expense = expense"

text \<open>A \<^verbatim>\<open>File\<close> picked by the user, by its name and its bytes.\<close>

datatype file_object = File (file_name: string) (file_bytes: string)

section \<open>AddTransactionForm\<close>

text \<open>The state of the component, one field for each \<^verbatim>\<open>useState\<close>.\<close>

record form =
  type :: direction
  amount :: string
  description :: string
  accountId :: string
  categoryId :: string
  date :: string
  receiptFile :: "file_object option"
  loading :: bool

subsection \<open>Derived lists\<close>

definition filteredCategories :: "category list \<Rightarrow> direction \<Rightarrow> category list" where
  "filteredCategories categories t =
     filter (\<lambda>cat. cat_transaction_type cat = type_string t) categories"

text \<open>The icons are elements \<^verbatim>\<open><Building size={16} />\<close> and \<^verbatim>\<open><CreditCard size={16} />\<close>.\<close>

datatype icon = Building nat | CreditCard nat

datatype entry_type = type_account | type_credit_card

text \<open>
  An element of \<^verbatim>\<open>allAccounts\<close>.  An entry made from an account has no property
  \<^verbatim>\<open>bankName\<close> (\<open>None\<close>).
\<close>

record entry =
  entry_id :: string
  entry_name :: string
  entry_type :: entry_type
  accountType :: account_type
  bankName :: "string option"
  entry_icon :: icon

definition account_entry :: "account \<Rightarrow> entry" where
  "account_entry account =
     \<lparr>entry_id = acc_id account, entry_name = acc_name account, entry_type = type_account,
      accountType = acc_type account, bankName = None, entry_icon = Building 16\<rparr>"

definition card_entry :: "credit_card_row \<Rightarrow> entry" where
  "card_entry creditCard =
     \<lparr>entry_id = card_id creditCard, entry_name = card_name creditCard,
      entry_type = type_credit_card,
      accountType = credit_card, bankName = Some (card_bank_name creditCard),
      entry_icon = CreditCard 16\<rparr>"

definition allAccounts :: "account list \<Rightarrow> credit_card_row list \<Rightarrow> entry list" where
  "allAccounts accounts creditCards = map account_entry accounts @ map card_entry creditCards"

subsection \<open>Events\<close>

definition setType :: "direction \<Rightarrow> form \<Rightarrow> form" where
  "setType v f = f\<lparr>type := v\<rparr>"

text \<open>\<^verbatim>\<open>handleFileChange\<close>: the first of the files picked, when there is one.\<close>

definition handleFileChange :: "file_object list option \<Rightarrow> form \<Rightarrow> form" where
  "handleFileChange files f =
     (case files of
        Some (file # rest) \<Rightarrow> f\<lparr>receiptFile := Some file\<rparr>
      | _ \<Rightarrow> f)"

subsection \<open>Submission\<close>

text \<open>The argument of \<^verbatim>\<open>createTransaction\<close>.\<close>

record transaction_input =
  tx_type :: direction
  tx_amount :: number
  tx_description :: string
  tx_account_id :: string
  tx_category_id :: string
  tx_date :: string
  tx_status :: transaction_status
  tx_receiptFile :: "file_object option"

text \<open>
  What the promise of \<^verbatim>\<open>createTransaction\<close> can reject with (the handler catches it as
  \<^verbatim>\<open>error: any\<close>): \<^verbatim>\<open>null\<close> or \<^verbatim>\<open>undefined\<close>, on which reading a property throws a
  \<^verbatim>\<open>TypeError\<close>; or any other value, given by what reading its property \<^verbatim>\<open>message\<close>
  returns (\<open>None\<close> when it has none).  The Transaction Store rejects with an error
  object that carries a message, a value of the second kind.  The value the promise
  fulfils with is not used.
\<close>

datatype thrown = Nullish | Thrown (message: "string option")

datatype settled = Fulfilled | Rejected thrown

text \<open>How the promise of the handler itself ends.\<close>

datatype completion = Returns | Throws_TypeError

text \<open>What the handler does to the outside: the notifications and the calls of the store.\<close>

datatype effect =
    ToastError string
  | ToastSuccess string
  | CreateTransaction transaction_input

fun is_create :: "effect \<Rightarrow> bool" where
  "is_create (CreateTransaction x) = True"
| "is_create e = False"

fun is_toast :: "effect \<Rightarrow> bool" where
  "is_toast (CreateTransaction x) = False"
| "is_toast e = True"

text \<open>
  The messages: \<^verbatim>\<open>'Por favor, preencha todos os campos obrigat\'orios'\<close>,
  \<^verbatim>\<open>'Valor deve ser um n\'umero positivo'\<close> and \<^verbatim>\<open>'Erro ao adicionar transa\c{c}\~ao'\<close>,
  the accented letters as their two bytes.
\<close>

definition msg_required :: string where
  "msg_required =
     ''Por favor, preencha todos os campos obrigat'' @ [CHR 0xC3, CHR 0xB3] @ ''rios''"

definition msg_positive :: string where
  "msg_positive = ''Valor deve ser um n'' @ [CHR 0xC3, CHR 0xBA] @ ''mero positivo''"

definition msg_failed :: string where
  "msg_failed = ''Erro ao adicionar transa'' @ [CHR 0xC3, CHR 0xA7, CHR 0xC3, CHR 0xA3] @ ''o''"

definition msg_added :: "direction \<Rightarrow> string" where
  "msg_added t = (if t = Income then ''Receita'' else ''Despesa'') @ '' adicionada com sucesso!''"

text \<open>\<^verbatim>\<open>error.message || 'Erro ao adicionar transa...'\<close>: a missing or empty message is falsy.\<close>

definition error_message :: "string option \<Rightarrow> string" where
  "error_message m =
     (case m of
        None \<Rightarrow> msg_failed
      | Some s \<Rightarrow> if s = [] then msg_failed else s)"

record result =
  state :: form
  effects :: "effect list"
  outcome :: completion

definition numericAmount :: "form \<Rightarrow> number" where
  "numericAmount f = parseFloat (replace CHR '','' ''.'' (amount f))"

definition payload :: "form \<Rightarrow> transaction_input" where
  "payload f =
     \<lparr>tx_type = type f, tx_amount = numericAmount f, tx_description = description f,
      tx_account_id = accountId f, tx_category_id = categoryId f, tx_date = date f,
      tx_status = completed, tx_receiptFile = receiptFile f\<rparr>"

text \<open>
  \<^verbatim>\<open>handleSubmit\<close>, run from the submit event to the end of its \<^verbatim>\<open>finally\<close> block, on
  the state \<open>f\<close> of the render it closes over.  \<open>createTransaction\<close> is the store's
  answer to the call, and \<open>today\<close> the value of
  \<^verbatim>\<open>new Date().toISOString().split('T')[0]\<close> when the call has been fulfilled.  The
  result holds the state after the setters, the effects in their order, and how the
  handler's own promise ends.  The \<^verbatim>\<open>catch\<close> block takes every rejection; reading
  \<^verbatim>\<open>error.message\<close> there throws when the value caught is \<^verbatim>\<open>null\<close> or
  \<^verbatim>\<open>undefined\<close>, before any notification, and the \<^verbatim>\<open>finally\<close> block runs in
  every case.
\<close>

definition handleSubmit :: "(transaction_input \<Rightarrow> settled) \<Rightarrow> string \<Rightarrow> form \<Rightarrow> result" where
  "handleSubmit createTransaction today f =
     (if amount f = [] \<or> description f = [] \<or> accountId f = [] \<or> categoryId f = [] then
        \<lparr>state = f, effects = [ToastError msg_required], outcome = Returns\<rparr>
      else if isNaN (numericAmount f) \<or> num_le (numericAmount f) (Finite 0) then
        \<lparr>state = f, effects = [ToastError msg_positive], outcome = Returns\<rparr>
      else
        (case createTransaction (payload f) of
           Fulfilled \<Rightarrow>
             \<lparr>state = f\<lparr>loading := True\<rparr>
                \<lparr>amount := [], description := [], accountId := [], categoryId := [],
                 date := today, receiptFile := None\<rparr>\<lparr>loading := False\<rparr>,
              effects = [CreateTransaction (payload f), ToastSuccess (msg_added (type f))],
              outcome = Returns\<rparr>
         | Rejected Nullish \<Rightarrow>
             \<lparr>state = f\<lparr>loading := True\<rparr>\<lparr>loading := False\<rparr>,
              effects = [CreateTransaction (payload f)],
              outcome = Throws_TypeError\<rparr>
         | Rejected (Thrown m) \<Rightarrow>
             \<lparr>state = f\<lparr>loading := True\<rparr>\<lparr>loading := False\<rparr>,
              effects = [CreateTransaction (payload f), ToastError (error_message m)],
              outcome = Returns\<rparr>))"

text \<open>The drafts that pass both checks of \<^verbatim>\<open>handleSubmit\<close>.\<close>

definition valid_draft :: "form \<Rightarrow> bool" where
  "valid_draft f =
     (amount f \<noteq> [] \<and> description f \<noteq> [] \<and> accountId f \<noteq> [] \<and> categoryId f \<noteq> []
      \<and> \<not> isNaN (numericAmount f) \<and> \<not> num_le (numericAmount f) (Finite 0))"

text \<open>What \<^verbatim>\<open>handleSubmit\<close> returns when it refuses the amount.\<close>

definition invalid_amount_result :: "form \<Rightarrow> result" where
  "invalid_amount_result f =
     \<lparr>state = f, effects = [ToastError msg_positive], outcome = Returns\<rparr>"

section \<open>CategoryManager\<close>

definition incomeCategories :: "category list \<Rightarrow> category list" where
  "incomeCategories categories = filter (\<lambda>cat. cat_transaction_type cat = income) categories"

definition expenseCategories :: "category list \<Rightarrow> category list" where
  "expenseCategories categories = filter (\<lambda>cat. cat_transaction_type cat = expense) categories"

text \<open>
  The suggestions rendered: the entries of the catalog that no existing category
  matches, cut by \<^verbatim>\<open>slice(0, 6)\<close>.  \<open>toLowerCase\<close> is \<^verbatim>\<open>String.prototype.toLowerCase\<close>,
  whose Unicode tables are a parameter.
\<close>

definition name_taken :: "(string \<Rightarrow> string) \<Rightarrow> category list \<Rightarrow> default_category \<Rightarrow> bool" where
  "name_taken toLowerCase categories defaultCat =
     list_ex (\<lambda>existingCat. toLowerCase (cat_name existingCat) = toLowerCase (dc_name defaultCat))
       categories"

definition suggestions ::
  "(string \<Rightarrow> string) \<Rightarrow> default_category list \<Rightarrow> category list \<Rightarrow> default_category list" where
  "suggestions toLowerCase defaultCategories categories =
     take 6 (filter (\<lambda>defaultCat. \<not> name_taken toLowerCase categories defaultCat) defaultCategories)"

text \<open>The lower case of the letters A to Z, to run \<open>suggestions\<close> on ASCII names.\<close>

definition ascii_lower :: "string \<Rightarrow> string" where
  "ascii_lower s =
     map (\<lambda>c. if 65 \<le> (of_char c :: int) \<and> (of_char c :: int) \<le> 90
               then char_of ((of_char c :: int) + 32) else c) s"

section \<open>Sample inputs\<close>

definition mk_category :: "string \<Rightarrow> string \<Rightarrow> transaction_type \<Rightarrow> category" where
  "mk_category i n t =
     \<lparr>cat_color = None, cat_created_at = None, cat_icon = None, cat_id = i,
      cat_is_active = Some True, cat_name = n, cat_parent_id = None,
      cat_transaction_type = t, cat_user_id = ''u1''\<rparr>"

definition mk_account :: "string \<Rightarrow> string \<Rightarrow> account_type \<Rightarrow> account" where
  "mk_account i n t =
     \<lparr>acc_balance = None, acc_bank_name = None, acc_closing_day = None,
      acc_created_at = None, acc_credit_limit = None, acc_due_day = None, acc_id = i,
      acc_is_active = Some True, acc_name = n, acc_type = t, acc_updated_at = None,
      acc_user_id = ''u1''\<rparr>"

definition sample_categories :: "category list" where
  "sample_categories =
     [mk_category ''c1'' ''Salario'' income, mk_category ''c2'' ''Alimentacao'' expense,
      mk_category ''c3'' ''Transporte'' expense]"

definition sample_accounts :: "account list" where
  "sample_accounts = [mk_account ''a1'' ''Carteira'' wallet, mk_account ''a2'' ''Conta'' checking]"

definition sample_cards :: "credit_card_row list" where
  "sample_cards = [\<lparr>card_id = ''k1'', card_name = ''Gold'', card_bank_name = ''Banco A''\<rparr>]"

definition sample_form :: form where
  "sample_form =
     \<lparr>type = Expense, amount = ''10,50'', description = ''Almoco'', accountId = ''a1'',
      categoryId = ''c2'', date = ''2024-05-01'', receiptFile = None, loading = False\<rparr>"

definition sample_catalog :: "default_category list" where
  "sample_catalog =
     map (\<lambda>n. \<lparr>dc_name = n, dc_icon = ''*'', dc_color = ''#6B7280'',
                dc_transaction_type = expense\<rparr>)
       [''alimentacao'', ''Lazer'', ''Pets'', ''Academia'', ''Saude'', ''Educacao'',
        ''Presentes'', ''Viagem'']"

definition store_accepts :: "transaction_input \<Rightarrow> settled" where
  "store_accepts p = Fulfilled"

definition store_rejects :: "string option \<Rightarrow> transaction_input \<Rightarrow> settled" where
  "store_rejects m p = Rejected (Thrown m)"


section \<open>Lemmas\<close>

lemma count_list_filter:
  "count_list (filter P xs) x = (if P x then count_list xs x else 0)"
  by (induction xs) auto

lemma msg_required_neq_positive: "msg_required \<noteq> msg_positive"
  by (simp add: msg_required_def msg_positive_def)

lemma handleSubmit_missing:
  "amount f = [] \<or> description f = [] \<or> accountId f = [] \<or> categoryId f = [] \<Longrightarrow>
   handleSubmit createTransaction today f =
     \<lparr>state = f, effects = [ToastError msg_required], outcome = Returns\<rparr>"
  unfolding handleSubmit_def by (rule if_P)

section \<open>Category filtering\<close>

text \<open>
  C5.  For every collection of categories and every direction \<open>d\<close>, the categories the
  form offers are a subsequence of the collection (the order is the collection's), a
  category is among them exactly when it is in the collection with the transaction type
  \<open>d\<close>, and each such category occurs as often as in the collection; the lists of the
  category manager are the same filter at \<open>income\<close> and at \<open>expense\<close>.
\<close>

theorem C5_category_filtering:
  "subseq (filteredCategories categories d) categories
   \<and> (\<forall>c. c \<in> set (filteredCategories categories d) \<longleftrightarrow>
          c \<in> set categories \<and> cat_transaction_type c = type_string d)
   \<and> (\<forall>c. count_list (filteredCategories categories d) c =
          (if cat_transaction_type c = type_string d then count_list categories c else 0))
   \<and> incomeCategories categories = filteredCategories categories Income
   \<and> expenseCategories categories = filteredCategories categories Expense"
  by (simp add: filteredCategories_def incomeCategories_def expenseCategories_def
      count_list_filter)

theorem C5_category_filtering_witness:
  "subseq (filteredCategories sample_categories Expense) sample_categories
   \<and> filteredCategories sample_categories Expense =
       [mk_category ''c2'' ''Alimentacao'' expense, mk_category ''c3'' ''Transporte'' expense]
   \<and> incomeCategories sample_categories = filteredCategories sample_categories Income"
  using C5_category_filtering [of sample_categories Expense]
  by (simp add: filteredCategories_def sample_categories_def mk_category_def)

section \<open>The direction toggle\<close>

text \<open>
  C8.  In every state of the form, choosing a direction changes the field \<open>type\<close> and
  no other: the amount, the description, the account, the category, the date, the file
  and the loading flag keep their values.  In particular a selected category whose
  transaction type is not the new direction stays selected, although the list of
  categories offered no longer contains it.
\<close>

theorem C8_toggle_changes_only_type:
  "type (setType v f) = v
   \<and> amount (setType v f) = amount f
   \<and> description (setType v f) = description f
   \<and> accountId (setType v f) = accountId f
   \<and> categoryId (setType v f) = categoryId f
   \<and> date (setType v f) = date f
   \<and> receiptFile (setType v f) = receiptFile f
   \<and> loading (setType v f) = loading f
   \<and> (c \<in> set categories \<and> cat_id c = categoryId f \<and> cat_transaction_type c \<noteq> type_string v
        \<longrightarrow> c \<notin> set (filteredCategories categories v) \<and> categoryId (setType v f) = cat_id c)"
  by (simp add: setType_def filteredCategories_def)

theorem C8_toggle_changes_only_type_witness:
  "mk_category ''c2'' ''Alimentacao'' expense \<in> set sample_categories
   \<and> cat_id (mk_category ''c2'' ''Alimentacao'' expense) = categoryId sample_form
   \<and> cat_transaction_type (mk_category ''c2'' ''Alimentacao'' expense) \<noteq> type_string Income
   \<and> mk_category ''c2'' ''Alimentacao'' expense \<notin> set (filteredCategories sample_categories Income)
   \<and> categoryId (setType Income sample_form) = ''c2''
   \<and> type (setType Income sample_form) = Income
   \<and> amount (setType Income sample_form) = ''10,50''"
  using C8_toggle_changes_only_type
    [of Income sample_form "mk_category ''c2'' ''Alimentacao'' expense" sample_categories]
  by (simp add: sample_categories_def sample_form_def mk_category_def)

section \<open>Submission: the required fields\<close>

text \<open>
  C3.  When the amount, the description, the account or the category is empty at a
  submit event, the handler shows the error about the required fields and returns: the
  state is the one before, no call of the store is among the effects, and the only
  notification is that error.  The amount is not looked at: the message is not the one
  of an invalid amount, whatever the amount is.
\<close>

theorem C3_missing_field:
  assumes "amount f = [] \<or> description f = [] \<or> accountId f = [] \<or> categoryId f = []"
  shows "handleSubmit createTransaction today f =
           \<lparr>state = f, effects = [ToastError msg_required], outcome = Returns\<rparr>
         \<and> filter is_create (effects (handleSubmit createTransaction today f)) = []
         \<and> filter is_toast (effects (handleSubmit createTransaction today f)) =
             [ToastError msg_required]
         \<and> msg_required \<noteq> msg_positive"
  using handleSubmit_missing[OF assms, of createTransaction today] msg_required_neq_positive
  by simp

theorem C3_missing_field_witness:
  "categoryId (sample_form\<lparr>categoryId := []\<rparr>) = []
   \<and> handleSubmit store_accepts ''2024-05-02'' (sample_form\<lparr>categoryId := []\<rparr>) =
       \<lparr>state = sample_form\<lparr>categoryId := []\<rparr>, effects = [ToastError msg_required],
        outcome = Returns\<rparr>
   \<and> filter is_create
        (effects (handleSubmit store_accepts ''2024-05-02'' (sample_form\<lparr>categoryId := []\<rparr>))) = []"
  using C3_missing_field [of "sample_form\<lparr>categoryId := []\<rparr>" store_accepts "''2024-05-02''"]
  by simp

section \<open>The funding sources\<close>

lemma allAccounts_length:
  "length (allAccounts accounts creditCards) = length accounts + length creditCards"
  by (simp add: allAccounts_def)

lemma allAccounts_nth_account:
  "i < length accounts \<Longrightarrow>
   allAccounts accounts creditCards ! i = account_entry (accounts ! i)"
  by (simp add: allAccounts_def nth_append)

lemma allAccounts_nth_card:
  "j < length creditCards \<Longrightarrow>
   allAccounts accounts creditCards ! (length accounts + j) = card_entry (creditCards ! j)"
  by (simp add: allAccounts_def nth_append)

lemma allAccounts_entry_type:
  "i < length (allAccounts accounts creditCards) \<Longrightarrow>
   entry_type (allAccounts accounts creditCards ! i) =
     (if i < length accounts then type_account else type_credit_card)"
  by (simp add: allAccounts_def nth_append account_entry_def card_entry_def)

lemma allAccounts_order:
  assumes "i < length (allAccounts accounts creditCards)"
    and "j < length (allAccounts accounts creditCards)"
    and "entry_type (allAccounts accounts creditCards ! i) = type_account"
    and "entry_type (allAccounts accounts creditCards ! j) = type_credit_card"
  shows "i < j"
proof -
  have "i < length accounts"
    using allAccounts_entry_type[OF assms(1)] assms(3) by (simp split: if_splits)
  moreover have "\<not> j < length accounts"
    using allAccounts_entry_type[OF assms(2)] assms(4) by (simp split: if_splits)
  ultimately show ?thesis by simp
qed

lemma account_entry_fields:
  "entry_type (account_entry a) = type_account \<and> entry_id (account_entry a) = acc_id a
   \<and> entry_name (account_entry a) = acc_name a \<and> accountType (account_entry a) = acc_type a
   \<and> bankName (account_entry a) = None"
  by (simp add: account_entry_def)

lemma card_entry_fields:
  "entry_type (card_entry c) = type_credit_card \<and> entry_id (card_entry c) = card_id c
   \<and> entry_name (card_entry c) = card_name c \<and> accountType (card_entry c) = credit_card
   \<and> bankName (card_entry c) = Some (card_bank_name c)"
  by (simp add: card_entry_def)

text \<open>
  C4.  For all accounts and credit cards, \<open>allAccounts\<close> has as many entries as both
  collections together; its first entries are the accounts' in their order, each with
  the account's id, name and type (its subtype); the entries after them are the cards'
  in their order, each with the card's id, name and bank name; so every entry of an
  account stands before every entry of a card; and two empty collections give the empty
  list.
\<close>

theorem C4_funding_source_unifier:
  "length (allAccounts accounts creditCards) = length accounts + length creditCards
   \<and> take (length accounts) (allAccounts accounts creditCards) = map account_entry accounts
   \<and> drop (length accounts) (allAccounts accounts creditCards) = map card_entry creditCards
   \<and> (\<forall>i < length accounts.
         entry_type (allAccounts accounts creditCards ! i) = type_account
         \<and> entry_id (allAccounts accounts creditCards ! i) = acc_id (accounts ! i)
         \<and> entry_name (allAccounts accounts creditCards ! i) = acc_name (accounts ! i)
         \<and> accountType (allAccounts accounts creditCards ! i) = acc_type (accounts ! i))
   \<and> (\<forall>j < length creditCards.
         entry_type (allAccounts accounts creditCards ! (length accounts + j)) =
             type_credit_card
         \<and> entry_id (allAccounts accounts creditCards ! (length accounts + j)) =
             card_id (creditCards ! j)
         \<and> entry_name (allAccounts accounts creditCards ! (length accounts + j)) =
             card_name (creditCards ! j)
         \<and> bankName (allAccounts accounts creditCards ! (length accounts + j)) =
             Some (card_bank_name (creditCards ! j)))
   \<and> (\<forall>i j. i < length (allAccounts accounts creditCards)
         \<and> j < length (allAccounts accounts creditCards)
         \<and> entry_type (allAccounts accounts creditCards ! i) = type_account
         \<and> entry_type (allAccounts accounts creditCards ! j) = type_credit_card
         \<longrightarrow> i < j)
   \<and> allAccounts [] [] = []"
proof (intro conjI allI impI)
  show "length (allAccounts accounts creditCards) = length accounts + length creditCards"
    by (rule allAccounts_length)
  show "take (length accounts) (allAccounts accounts creditCards) = map account_entry accounts"
    by (simp add: allAccounts_def)
  show "drop (length accounts) (allAccounts accounts creditCards) = map card_entry creditCards"
    by (simp add: allAccounts_def)
  show "allAccounts [] [] = []"
    by (simp add: allAccounts_def)
  fix i j
  assume "i < length (allAccounts accounts creditCards)
         \<and> j < length (allAccounts accounts creditCards)
         \<and> entry_type (allAccounts accounts creditCards ! i) = type_account
         \<and> entry_type (allAccounts accounts creditCards ! j) = type_credit_card"
  then show "i < j" using allAccounts_order by blast
next
  fix i assume i: "i < length accounts"
  show "entry_type (allAccounts accounts creditCards ! i) = type_account"
    "entry_id (allAccounts accounts creditCards ! i) = acc_id (accounts ! i)"
    "entry_name (allAccounts accounts creditCards ! i) = acc_name (accounts ! i)"
    "accountType (allAccounts accounts creditCards ! i) = acc_type (accounts ! i)"
    by (simp_all add: allAccounts_nth_account[OF i] account_entry_fields)
next
  fix j assume j: "j < length creditCards"
  show "entry_type (allAccounts accounts creditCards ! (length accounts + j)) = type_credit_card"
    "entry_id (allAccounts accounts creditCards ! (length accounts + j)) = card_id (creditCards ! j)"
    "entry_name (allAccounts accounts creditCards ! (length accounts + j)) = card_name (creditCards ! j)"
    "bankName (allAccounts accounts creditCards ! (length accounts + j)) =
       Some (card_bank_name (creditCards ! j))"
    by (simp_all add: allAccounts_nth_card[OF j] card_entry_fields)
qed

theorem C4_funding_source_unifier_witness:
  "length (allAccounts sample_accounts sample_cards) = 3
   \<and> take (length sample_accounts) (allAccounts sample_accounts sample_cards) =
       map account_entry sample_accounts
   \<and> drop (length sample_accounts) (allAccounts sample_accounts sample_cards) =
       map card_entry sample_cards
   \<and> allAccounts [] [] = []"
  using C4_funding_source_unifier [of sample_accounts sample_cards]
  by (simp add: sample_accounts_def sample_cards_def)

lemma sample_entries:
  "map entry_id (allAccounts sample_accounts sample_cards) = [''a1'', ''a2'', ''k1'']
   \<and> map entry_type (allAccounts sample_accounts sample_cards) =
       [type_account, type_account, type_credit_card]
   \<and> map accountType (allAccounts sample_accounts sample_cards) =
       [wallet, checking, credit_card]
   \<and> map bankName (allAccounts sample_accounts sample_cards) = [None, None, Some ''Banco A'']"
  by (simp add: allAccounts_def sample_accounts_def sample_cards_def mk_account_def
      account_entry_def card_entry_def)

section \<open>Submission: a valid draft\<close>

lemma handleSubmit_valid:
  assumes "valid_draft f"
  shows "handleSubmit createTransaction today f =
     (case createTransaction (payload f) of
        Fulfilled \<Rightarrow>
          \<lparr>state = f\<lparr>loading := True\<rparr>
             \<lparr>amount := [], description := [], accountId := [], categoryId := [],
              date := today, receiptFile := None\<rparr>\<lparr>loading := False\<rparr>,
           effects = [CreateTransaction (payload f), ToastSuccess (msg_added (type f))],
           outcome = Returns\<rparr>
      | Rejected Nullish \<Rightarrow>
          \<lparr>state = f\<lparr>loading := True\<rparr>\<lparr>loading := False\<rparr>,
           effects = [CreateTransaction (payload f)],
           outcome = Throws_TypeError\<rparr>
      | Rejected (Thrown m) \<Rightarrow>
          \<lparr>state = f\<lparr>loading := True\<rparr>\<lparr>loading := False\<rparr>,
           effects = [CreateTransaction (payload f), ToastError (error_message m)],
           outcome = Returns\<rparr>)"
  using assms by (simp add: handleSubmit_def valid_draft_def)

lemma parse_10_50: "parseFloat ''10.50'' = Finite (21 / 2)"
  by code_simp

lemma numericAmount_sample: "numericAmount sample_form = Finite (21 / 2)"
  by (simp add: numericAmount_def sample_form_def parse_10_50)

lemma valid_sample: "valid_draft sample_form"
  by (simp add: valid_draft_def numericAmount_sample isNaN_def) (simp add: sample_form_def)


text \<open>
  C1.  At a submit event where the four required fields are non-empty and the amount
  passes the check of a positive number, the effects hold exactly one call of the store,
  whatever the store answers; its argument carries the number \<open>parseFloat\<close> reads from the
  amount with its first comma replaced, the type, the description, the account, the
  category and the date of the draft, the status \<open>completed\<close>, and the file of the draft
  when there is one.
\<close>

theorem C1_one_create_call:
  assumes "amount f \<noteq> []" and "description f \<noteq> []" and "accountId f \<noteq> []"
    and "categoryId f \<noteq> []"
    and "\<not> isNaN (parseFloat (replace CHR '','' ''.'' (amount f)))"
    and "\<not> num_le (parseFloat (replace CHR '','' ''.'' (amount f))) (Finite 0)"
  shows "filter is_create (effects (handleSubmit createTransaction today f)) =
           [CreateTransaction
              \<lparr>tx_type = type f,
               tx_amount = parseFloat (replace CHR '','' ''.'' (amount f)),
               tx_description = description f, tx_account_id = accountId f,
               tx_category_id = categoryId f, tx_date = date f, tx_status = completed,
               tx_receiptFile = receiptFile f\<rparr>]"
proof -
  have v: "valid_draft f"
    using assms by (simp add: valid_draft_def numericAmount_def)
  show ?thesis
    by (cases "createTransaction (payload f)")
      (simp_all add: handleSubmit_valid[OF v] payload_def numericAmount_def
        split: thrown.splits)
qed

theorem C1_one_create_call_witness:
  "amount sample_form \<noteq> [] \<and> description sample_form \<noteq> [] \<and> accountId sample_form \<noteq> []
   \<and> categoryId sample_form \<noteq> []
   \<and> \<not> isNaN (parseFloat (replace CHR '','' ''.'' (amount sample_form)))
   \<and> \<not> num_le (parseFloat (replace CHR '','' ''.'' (amount sample_form))) (Finite 0)
   \<and> filter is_create (effects (handleSubmit store_accepts ''2024-05-02'' sample_form)) =
       [CreateTransaction
          \<lparr>tx_type = Expense, tx_amount = Finite (21 / 2), tx_description = ''Almoco'',
           tx_account_id = ''a1'', tx_category_id = ''c2'', tx_date = ''2024-05-01'',
           tx_status = completed, tx_receiptFile = None\<rparr>]"
proof -
  have n: "parseFloat (replace CHR '','' ''.'' (amount sample_form)) = Finite (21 / 2)"
    using numericAmount_sample by (simp add: numericAmount_def)
  have h: "amount sample_form \<noteq> []" "description sample_form \<noteq> []"
    "accountId sample_form \<noteq> []" "categoryId sample_form \<noteq> []"
    by (simp_all add: sample_form_def)
  have a: "\<not> isNaN (parseFloat (replace CHR '','' ''.'' (amount sample_form)))"
    by (simp add: n isNaN_def)
  have b: "\<not> num_le (parseFloat (replace CHR '','' ''.'' (amount sample_form))) (Finite 0)"
    by (simp add: n)
  have "filter is_create (effects (handleSubmit store_accepts ''2024-05-02'' sample_form)) =
       [CreateTransaction
          \<lparr>tx_type = type sample_form,
           tx_amount = parseFloat (replace CHR '','' ''.'' (amount sample_form)),
           tx_description = description sample_form, tx_account_id = accountId sample_form,
           tx_category_id = categoryId sample_form, tx_date = date sample_form,
           tx_status = completed, tx_receiptFile = receiptFile sample_form\<rparr>]"
    by (rule C1_one_create_call[OF h a b])
  then show ?thesis
    using h a b by (simp add: n) (simp add: sample_form_def)
qed

section \<open>Submission: the store's answer\<close>

lemma msg_added_cases:
  "msg_added Income = ''Receita adicionada com sucesso!''
   \<and> msg_added Expense = ''Despesa adicionada com sucesso!''"
  by (simp add: msg_added_def)

text \<open>
  C6.  When the draft passes the checks and the store fulfils the call, the amount, the
  description, the account and the category are empty afterwards, the date is the
  current date, there is no file, and the type is the one before; the only notification
  is the success message of that type, shown after the call of the store.
\<close>

theorem C6_success_resets_draft:
  assumes "valid_draft f" and "createTransaction (payload f) = Fulfilled"
  shows "type (state (handleSubmit createTransaction today f)) = type f
         \<and> amount (state (handleSubmit createTransaction today f)) = []
         \<and> description (state (handleSubmit createTransaction today f)) = []
         \<and> accountId (state (handleSubmit createTransaction today f)) = []
         \<and> categoryId (state (handleSubmit createTransaction today f)) = []
         \<and> date (state (handleSubmit createTransaction today f)) = today
         \<and> receiptFile (state (handleSubmit createTransaction today f)) = None
         \<and> loading (state (handleSubmit createTransaction today f)) = False
         \<and> effects (handleSubmit createTransaction today f) =
             [CreateTransaction (payload f),
              ToastSuccess (if type f = Income then ''Receita adicionada com sucesso!''
                            else ''Despesa adicionada com sucesso!'')]
         \<and> outcome (handleSubmit createTransaction today f) = Returns"
  using assms(2) by (simp add: handleSubmit_valid[OF assms(1)] msg_added_def)

theorem C6_success_resets_draft_witness:
  "valid_draft sample_form \<and> store_accepts (payload sample_form) = Fulfilled
   \<and> state (handleSubmit store_accepts ''2024-05-02'' sample_form) =
       \<lparr>type = Expense, amount = [], description = [], accountId = [], categoryId = [],
        date = ''2024-05-02'', receiptFile = None, loading = False\<rparr>
   \<and> filter is_toast (effects (handleSubmit store_accepts ''2024-05-02'' sample_form)) =
       [ToastSuccess ''Despesa adicionada com sucesso!'']"
proof -
  have a: "store_accepts (payload sample_form) = Fulfilled"
    by (simp add: store_accepts_def)
  have t: "type sample_form = Expense"
    by (simp add: sample_form_def)
  note r = C6_success_resets_draft
    [where f = sample_form and createTransaction = store_accepts and today = "''2024-05-02''",
     OF valid_sample a]
  have "state (handleSubmit store_accepts ''2024-05-02'' sample_form) =
       \<lparr>type = Expense, amount = [], description = [], accountId = [], categoryId = [],
        date = ''2024-05-02'', receiptFile = None, loading = False\<rparr>"
    using r t by (cases "state (handleSubmit store_accepts ''2024-05-02'' sample_form)") simp
  moreover have "filter is_toast (effects (handleSubmit store_accepts ''2024-05-02'' sample_form)) =
       [ToastSuccess ''Despesa adicionada com sucesso!'']"
    using r t by simp
  ultimately show ?thesis using valid_sample a by simp
qed





lemma failure_without_message:
  "valid_draft sample_form \<Longrightarrow>
   effects (handleSubmit (store_rejects None) today sample_form) =
     [CreateTransaction (payload sample_form), ToastError msg_failed]
   \<and> effects (handleSubmit (store_rejects (Some [])) today sample_form) =
     [CreateTransaction (payload sample_form), ToastError msg_failed]"
  by (simp add: handleSubmit_valid store_rejects_def error_message_def)

section \<open>The suggestions of the category manager\<close>

lemma name_taken_iff:
  "name_taken toLowerCase categories d \<longleftrightarrow>
   (\<exists>c \<in> set categories. toLowerCase (cat_name c) = toLowerCase (dc_name d))"
  by (simp add: name_taken_def list_ex_iff)

lemma suggestions_sample:
  "map dc_name (suggestions ascii_lower sample_catalog sample_categories) =
     [''Lazer'', ''Pets'', ''Academia'', ''Saude'', ''Educacao'', ''Presentes'']"
  by code_simp

text \<open>
  C9.  For every collection of categories and every catalog, the suggestions are at most
  six, they are a subsequence of the catalog (the order is the catalog's), each is an
  entry of the catalog whose name, in lower case, is the name in lower case of no
  existing category, and they are the first six of the entries of that kind: all of
  them when there are six or fewer.
\<close>

theorem C9_suggestions:
  "length (suggestions toLowerCase defaultCategories categories) \<le> 6
   \<and> subseq (suggestions toLowerCase defaultCategories categories) defaultCategories
   \<and> (\<forall>d \<in> set (suggestions toLowerCase defaultCategories categories).
         d \<in> set defaultCategories
         \<and> \<not> (\<exists>c \<in> set categories. toLowerCase (cat_name c) = toLowerCase (dc_name d)))
   \<and> suggestions toLowerCase defaultCategories categories =
       take 6 (filter
         (\<lambda>d. \<not> (\<exists>c \<in> set categories. toLowerCase (cat_name c) = toLowerCase (dc_name d)))
         defaultCategories)
   \<and> (length (filter
         (\<lambda>d. \<not> (\<exists>c \<in> set categories. toLowerCase (cat_name c) = toLowerCase (dc_name d)))
         defaultCategories) \<le> 6
       \<longrightarrow> set (suggestions toLowerCase defaultCategories categories) =
           {d \<in> set defaultCategories.
              \<not> (\<exists>c \<in> set categories. toLowerCase (cat_name c) = toLowerCase (dc_name d))})"
proof -
  let ?free = "\<lambda>d. \<not> (\<exists>c \<in> set categories. toLowerCase (cat_name c) = toLowerCase (dc_name d))"
  have eq: "suggestions toLowerCase defaultCategories categories =
      take 6 (filter ?free defaultCategories)"
    by (simp add: suggestions_def name_taken_iff)
  have len: "length (take 6 (filter ?free defaultCategories)) \<le> 6"
    by simp
  have sub: "subseq (take 6 (filter ?free defaultCategories)) defaultCategories"
  proof -
    have "subseq (take 6 (filter ?free defaultCategories)) (filter ?free defaultCategories)"
      by (rule sublist_imp_subseq) (rule sublist_take)
    moreover have "subseq (filter ?free defaultCategories) defaultCategories"
      by (rule subseq_filter_left)
    ultimately show ?thesis
      by (rule subseq_order.order_trans)
  qed
  have mem: "d \<in> set defaultCategories \<and> ?free d"
    if "d \<in> set (take 6 (filter ?free defaultCategories))" for d
    using in_set_takeD[OF that] by simp
  have all: "set (take 6 (filter ?free defaultCategories)) = {d \<in> set defaultCategories. ?free d}"
    if "length (filter ?free defaultCategories) \<le> 6"
    using that by simp
  show ?thesis
    unfolding eq
  proof (intro conjI ballI impI)
    show "length (take 6 (filter ?free defaultCategories)) \<le> 6" by (rule len)
    show "subseq (take 6 (filter ?free defaultCategories)) defaultCategories" by (rule sub)
    show "take 6 (filter ?free defaultCategories) = take 6 (filter ?free defaultCategories)"
      by (rule refl)
  next
    fix d assume "d \<in> set (take 6 (filter ?free defaultCategories))"
    from mem[OF this] show "d \<in> set defaultCategories" and "?free d" by blast+
  next
    assume "length (filter ?free defaultCategories) \<le> 6"
    from all[OF this]
    show "set (take 6 (filter ?free defaultCategories)) = {d \<in> set defaultCategories. ?free d}" .
  qed
qed

theorem C9_suggestions_witness:
  "length (suggestions ascii_lower sample_catalog sample_categories) \<le> 6
   \<and> subseq (suggestions ascii_lower sample_catalog sample_categories) sample_catalog
   \<and> map dc_name (suggestions ascii_lower sample_catalog sample_categories) =
       [''Lazer'', ''Pets'', ''Academia'', ''Saude'', ''Educacao'', ''Presentes'']"
proof -
  note r = C9_suggestions [of ascii_lower sample_catalog sample_categories]
  have a: "length (suggestions ascii_lower sample_catalog sample_categories) \<le> 6"
    using r by blast
  have b: "subseq (suggestions ascii_lower sample_catalog sample_categories) sample_catalog"
    using r by blast
  show ?thesis
    by (intro conjI) (fact a b suggestions_sample)+
qed

section \<open>Submission: the amount\<close>

lemma parse_0: "parseFloat ''0'' = Finite 0"
  by code_simp

lemma parse_minus_5: "parseFloat ''-5'' = Finite (- 5)"
  by code_simp

lemma parse_abc: "parseFloat ''abc'' = NaN"
  by code_simp

lemma parse_Infinity: "parseFloat ''Infinity'' = PosInfinity"
  by code_simp

lemma parse_10abc: "parseFloat ''10abc'' = Finite 10"
  by code_simp

lemma parse_1_5_9: "parseFloat ''1.5,9'' = Finite (3 / 2)"
  by code_simp

text \<open>
  More readings of \<open>parseFloat\<close>: a fraction alone, a signed zero, white space before
  the digits, and strings with no numeric prefix.
\<close>

lemma parseFloat_examples:
  "parseFloat ''.5'' = Finite (1 / 2)"
  "parseFloat ''-0'' = NegZero"
  "parseFloat ''  7'' = Finite 7"
  "parseFloat ''.'' = NaN"
  "parseFloat ''-'' = NaN"
  "parseFloat ''-Infinity'' = NegInfinity"
  by code_simp+

lemma numericAmount_amount:
  "numericAmount (f\<lparr>amount := s\<rparr>) = parseFloat (replace CHR '','' ''.'' s)"
  by (simp add: numericAmount_def)

lemma refused_number:
  "(isNaN n \<or> num_le n (Finite 0)) \<longleftrightarrow>
   n \<noteq> PosInfinity \<and> (\<not> isFinite n \<or> real_value n \<le> 0)"
  by (cases n) (simp_all add: isNaN_def isFinite_def)

lemma handleSubmit_invalid:
  assumes "amount f \<noteq> []" and "description f \<noteq> []" and "accountId f \<noteq> []"
    and "categoryId f \<noteq> []"
    and "isNaN (numericAmount f) \<or> num_le (numericAmount f) (Finite 0)"
  shows "handleSubmit createTransaction today f = invalid_amount_result f"
  using assms by (simp add: handleSubmit_def invalid_amount_result_def)

lemma handleSubmit_valid_effects:
  assumes "valid_draft f"
  shows "filter is_create (effects (handleSubmit createTransaction today f)) =
           [CreateTransaction (payload f)]"
  by (cases "createTransaction (payload f)")
    (simp_all add: handleSubmit_valid[OF assms] split: thrown.splits)

lemma handleSubmit_invalid_iff:
  assumes "amount f \<noteq> []" and "description f \<noteq> []" and "accountId f \<noteq> []"
    and "categoryId f \<noteq> []"
  shows "handleSubmit createTransaction today f = invalid_amount_result f \<longleftrightarrow>
         isNaN (numericAmount f) \<or> num_le (numericAmount f) (Finite 0)"
proof
  assume r: "handleSubmit createTransaction today f = invalid_amount_result f"
  show "isNaN (numericAmount f) \<or> num_le (numericAmount f) (Finite 0)"
  proof (rule ccontr)
    assume "\<not> (isNaN (numericAmount f) \<or> num_le (numericAmount f) (Finite 0))"
    then have "valid_draft f"
      using assms by (simp add: valid_draft_def)
    from handleSubmit_valid_effects[OF this, of createTransaction today]
    show False
      by (simp add: r invalid_amount_result_def)
  qed
next
  assume "isNaN (numericAmount f) \<or> num_le (numericAmount f) (Finite 0)"
  then show "handleSubmit createTransaction today f = invalid_amount_result f"
    using assms by (rule handleSubmit_invalid[rotated 4])
qed

section \<open>Submission: the check of the amount\<close>

lemma accepted_amount:
  assumes "description f \<noteq> []" and "accountId f \<noteq> []" and "categoryId f \<noteq> []"
    and "s \<noteq> []" and "parseFloat (replace CHR '','' ''.'' s) = Finite q" and "0 < q"
  shows "filter is_create (effects (handleSubmit createTransaction today (f\<lparr>amount := s\<rparr>))) =
           [CreateTransaction (payload (f\<lparr>amount := s\<rparr>))]
         \<and> tx_amount (payload (f\<lparr>amount := s\<rparr>)) = Finite q"
proof -
  have "valid_draft (f\<lparr>amount := s\<rparr>)"
    using assms by (simp add: valid_draft_def isNaN_def numericAmount_amount)
  from handleSubmit_valid_effects[OF this] assms(5) show ?thesis
    by (simp add: payload_def numericAmount_amount)
qed

lemma refused_amount:
  assumes "description f \<noteq> []" and "accountId f \<noteq> []" and "categoryId f \<noteq> []"
    and "s \<noteq> []"
    and "isNaN (parseFloat (replace CHR '','' ''.'' s))
         \<or> num_le (parseFloat (replace CHR '','' ''.'' s)) (Finite 0)"
  shows "handleSubmit createTransaction today (f\<lparr>amount := s\<rparr>) =
           invalid_amount_result (f\<lparr>amount := s\<rparr>)"
  using assms by (intro handleSubmit_invalid) (simp_all add: numericAmount_amount)

text \<open>
  C2.  With the description, the account and the category filled in, a non-empty amount
  is refused (the state unchanged, the single effect the error about a positive number,
  no call of the store) exactly when \<open>parseFloat\<close>, applied to the amount with its first
  comma replaced by a point, gives NaN or a number \<open>\<le> 0\<close>: that is, when the number is
  not \<open>+\<infinity>\<close> and is either not finite or \<open>\<le> 0\<close>.  A draft that is not refused
  issues the call of the store.  So \<open>10,50\<close> and \<open>10.50\<close> are submitted as 10.5,
  and \<open>0\<close>, \<open>-5\<close> and \<open>abc\<close> are refused; an amount read as \<open>+\<infinity>\<close>, such as
  \<open>Infinity\<close>, is submitted.
\<close>

theorem C2_amount_refused_iff:
  assumes "amount f \<noteq> []" and "description f \<noteq> []" and "accountId f \<noteq> []"
    and "categoryId f \<noteq> []"
  shows "(handleSubmit createTransaction today f = invalid_amount_result f \<longleftrightarrow>
            numericAmount f \<noteq> PosInfinity
            \<and> (\<not> isFinite (numericAmount f) \<or> real_value (numericAmount f) \<le> 0))
         \<and> (handleSubmit createTransaction today f = invalid_amount_result f
            \<or> filter is_create (effects (handleSubmit createTransaction today f)) =
                [CreateTransaction (payload f)])
         \<and> numericAmount f = parseFloat (replace CHR '','' ''.'' (amount f))
         \<and> filter is_create
              (effects (handleSubmit createTransaction today (f\<lparr>amount := ''10,50''\<rparr>))) =
             [CreateTransaction (payload (f\<lparr>amount := ''10,50''\<rparr>))]
         \<and> tx_amount (payload (f\<lparr>amount := ''10,50''\<rparr>)) = Finite (21 / 2)
         \<and> filter is_create
              (effects (handleSubmit createTransaction today (f\<lparr>amount := ''10.50''\<rparr>))) =
             [CreateTransaction (payload (f\<lparr>amount := ''10.50''\<rparr>))]
         \<and> tx_amount (payload (f\<lparr>amount := ''10.50''\<rparr>)) = Finite (21 / 2)
         \<and> handleSubmit createTransaction today (f\<lparr>amount := ''0''\<rparr>) =
             invalid_amount_result (f\<lparr>amount := ''0''\<rparr>)
         \<and> handleSubmit createTransaction today (f\<lparr>amount := ''-5''\<rparr>) =
             invalid_amount_result (f\<lparr>amount := ''-5''\<rparr>)
         \<and> handleSubmit createTransaction today (f\<lparr>amount := ''abc''\<rparr>) =
             invalid_amount_result (f\<lparr>amount := ''abc''\<rparr>)
         \<and> filter is_create
              (effects (handleSubmit createTransaction today (f\<lparr>amount := ''Infinity''\<rparr>))) =
             [CreateTransaction (payload (f\<lparr>amount := ''Infinity''\<rparr>))]
         \<and> tx_amount (payload (f\<lparr>amount := ''Infinity''\<rparr>)) = PosInfinity"
proof (intro conjI)
  show "handleSubmit createTransaction today f = invalid_amount_result f \<longleftrightarrow>
            numericAmount f \<noteq> PosInfinity
            \<and> (\<not> isFinite (numericAmount f) \<or> real_value (numericAmount f) \<le> 0)"
    using handleSubmit_invalid_iff[OF assms] refused_number by simp
  show "handleSubmit createTransaction today f = invalid_amount_result f
            \<or> filter is_create (effects (handleSubmit createTransaction today f)) =
                [CreateTransaction (payload f)]"
  proof (cases "isNaN (numericAmount f) \<or> num_le (numericAmount f) (Finite 0)")
    case True
    then show ?thesis using handleSubmit_invalid_iff[OF assms] by simp
  next
    case False
    then have "valid_draft f" using assms by (simp add: valid_draft_def)
    then show ?thesis using handleSubmit_valid_effects by simp
  qed
  show "numericAmount f = parseFloat (replace CHR '','' ''.'' (amount f))"
    by (simp add: numericAmount_def)
  have a: "parseFloat (replace CHR '','' ''.'' ''10,50'') = Finite (21 / 2)"
    by (simp add: parse_10_50)
  have b: "parseFloat (replace CHR '','' ''.'' ''10.50'') = Finite (21 / 2)"
    by (simp add: parse_10_50)
  note A = accepted_amount[OF assms(2-4) _ a, of createTransaction today]
  note B = accepted_amount[OF assms(2-4) _ b, of createTransaction today]
  show "filter is_create
          (effects (handleSubmit createTransaction today (f\<lparr>amount := ''10,50''\<rparr>))) =
        [CreateTransaction (payload (f\<lparr>amount := ''10,50''\<rparr>))]"
    and "tx_amount (payload (f\<lparr>amount := ''10,50''\<rparr>)) = Finite (21 / 2)"
    using A by simp_all
  show "filter is_create
          (effects (handleSubmit createTransaction today (f\<lparr>amount := ''10.50''\<rparr>))) =
        [CreateTransaction (payload (f\<lparr>amount := ''10.50''\<rparr>))]"
    and "tx_amount (payload (f\<lparr>amount := ''10.50''\<rparr>)) = Finite (21 / 2)"
    using B by simp_all
  show "handleSubmit createTransaction today (f\<lparr>amount := ''0''\<rparr>) =
          invalid_amount_result (f\<lparr>amount := ''0''\<rparr>)"
    by (rule refused_amount[OF assms(2-4)]) (simp_all add: parse_0)
  show "handleSubmit createTransaction today (f\<lparr>amount := ''-5''\<rparr>) =
          invalid_amount_result (f\<lparr>amount := ''-5''\<rparr>)"
    by (rule refused_amount[OF assms(2-4)]) (simp_all add: parse_minus_5)
  show "handleSubmit createTransaction today (f\<lparr>amount := ''abc''\<rparr>) =
          invalid_amount_result (f\<lparr>amount := ''abc''\<rparr>)"
    by (rule refused_amount[OF assms(2-4)]) (simp_all add: parse_abc isNaN_def)
  have v: "valid_draft (f\<lparr>amount := ''Infinity''\<rparr>)"
    using assms(2-4)
    by (simp add: valid_draft_def isNaN_def parse_Infinity numericAmount_amount)
  show "filter is_create
          (effects (handleSubmit createTransaction today (f\<lparr>amount := ''Infinity''\<rparr>))) =
        [CreateTransaction (payload (f\<lparr>amount := ''Infinity''\<rparr>))]"
    by (rule handleSubmit_valid_effects[OF v])
  show "tx_amount (payload (f\<lparr>amount := ''Infinity''\<rparr>)) = PosInfinity"
    by (simp add: payload_def parse_Infinity numericAmount_amount)
qed


theorem C2_amount_refused_iff_witness:
  "amount sample_form \<noteq> [] \<and> description sample_form \<noteq> [] \<and> accountId sample_form \<noteq> []
   \<and> categoryId sample_form \<noteq> []
   \<and> handleSubmit store_accepts ''2024-05-02'' sample_form \<noteq> invalid_amount_result sample_form
   \<and> numericAmount sample_form = Finite (21 / 2)
   \<and> handleSubmit store_accepts ''2024-05-02'' (sample_form\<lparr>amount := ''0''\<rparr>) =
       invalid_amount_result (sample_form\<lparr>amount := ''0''\<rparr>)
   \<and> handleSubmit store_accepts ''2024-05-02'' (sample_form\<lparr>amount := ''abc''\<rparr>) =
       invalid_amount_result (sample_form\<lparr>amount := ''abc''\<rparr>)
   \<and> tx_amount (payload (sample_form\<lparr>amount := ''10.50''\<rparr>)) = Finite (21 / 2)"
proof -
  have h: "amount sample_form \<noteq> []" "description sample_form \<noteq> []"
    "accountId sample_form \<noteq> []" "categoryId sample_form \<noteq> []"
    by (simp_all add: sample_form_def)
  note r = C2_amount_refused_iff
    [where f = sample_form and createTransaction = store_accepts and today = "''2024-05-02''",
     OF h]
  have a: "handleSubmit store_accepts ''2024-05-02'' sample_form \<noteq>
      invalid_amount_result sample_form"
    using r[THEN conjunct1] by (simp add: numericAmount_sample isFinite_def)
  have b: "handleSubmit store_accepts ''2024-05-02'' (sample_form\<lparr>amount := ''0''\<rparr>) =
       invalid_amount_result (sample_form\<lparr>amount := ''0''\<rparr>)"
    using r by blast
  have c: "handleSubmit store_accepts ''2024-05-02'' (sample_form\<lparr>amount := ''abc''\<rparr>) =
       invalid_amount_result (sample_form\<lparr>amount := ''abc''\<rparr>)"
    using r by blast
  have d: "tx_amount (payload (sample_form\<lparr>amount := ''10.50''\<rparr>)) = Finite (21 / 2)"
    using r by blast
  show ?thesis
    by (intro conjI) (fact h a b c d numericAmount_sample)+
qed

text \<open>
  The amount \<open>Infinity\<close> is not read as a finite number, and it is not refused: the
  store is called with the amount \<open>+\<infinity>\<close>.
\<close>

lemma valid_sample_Infinity: "valid_draft (sample_form\<lparr>amount := ''Infinity''\<rparr>)"
  by (simp add: valid_draft_def isNaN_def parse_Infinity numericAmount_amount)
    (simp add: sample_form_def)

theorem C2_counterexample:
  "amount (sample_form\<lparr>amount := ''Infinity''\<rparr>) \<noteq> []
   \<and> numericAmount (sample_form\<lparr>amount := ''Infinity''\<rparr>) = PosInfinity
   \<and> \<not> isFinite (numericAmount (sample_form\<lparr>amount := ''Infinity''\<rparr>))
   \<and> handleSubmit store_accepts ''2024-05-02'' (sample_form\<lparr>amount := ''Infinity''\<rparr>) \<noteq>
       invalid_amount_result (sample_form\<lparr>amount := ''Infinity''\<rparr>)
   \<and> effects (handleSubmit store_accepts ''2024-05-02'' (sample_form\<lparr>amount := ''Infinity''\<rparr>)) =
       [CreateTransaction
          \<lparr>tx_type = Expense, tx_amount = PosInfinity, tx_description = ''Almoco'',
           tx_account_id = ''a1'', tx_category_id = ''c2'', tx_date = ''2024-05-01'',
           tx_status = completed, tx_receiptFile = None\<rparr>,
        ToastSuccess ''Despesa adicionada com sucesso!'']"
proof -
  have e: "effects (handleSubmit store_accepts ''2024-05-02''
      (sample_form\<lparr>amount := ''Infinity''\<rparr>)) =
       [CreateTransaction
          \<lparr>tx_type = Expense, tx_amount = PosInfinity, tx_description = ''Almoco'',
           tx_account_id = ''a1'', tx_category_id = ''c2'', tx_date = ''2024-05-01'',
           tx_status = completed, tx_receiptFile = None\<rparr>,
        ToastSuccess ''Despesa adicionada com sucesso!'']"
    by (simp add: handleSubmit_valid[OF valid_sample_Infinity] store_accepts_def payload_def
        parse_Infinity msg_added_def numericAmount_amount) (simp add: sample_form_def)
  have n: "handleSubmit store_accepts ''2024-05-02'' (sample_form\<lparr>amount := ''Infinity''\<rparr>) \<noteq>
       invalid_amount_result (sample_form\<lparr>amount := ''Infinity''\<rparr>)"
  proof
    assume "handleSubmit store_accepts ''2024-05-02'' (sample_form\<lparr>amount := ''Infinity''\<rparr>) =
       invalid_amount_result (sample_form\<lparr>amount := ''Infinity''\<rparr>)"
    then have "effects (handleSubmit store_accepts ''2024-05-02''
        (sample_form\<lparr>amount := ''Infinity''\<rparr>)) = [ToastError msg_positive]"
      by (simp add: invalid_amount_result_def)
    with e show False by simp
  qed
  have p: "numericAmount (sample_form\<lparr>amount := ''Infinity''\<rparr>) = PosInfinity"
    by (simp add: parse_Infinity numericAmount_amount)
  have f: "\<not> isFinite (numericAmount (sample_form\<lparr>amount := ''Infinity''\<rparr>))"
    by (simp add: parse_Infinity isFinite_def numericAmount_amount)
  have a: "amount (sample_form\<lparr>amount := ''Infinity''\<rparr>) \<noteq> []"
    by simp
  show ?thesis
    by (intro conjI) (fact a p f n e)+
qed

section \<open>The Number value of a positive value\<close>

lemma pow2_powi: "pow2 k = 2 powi k"
  by (simp add: pow2_def power_int_def field_simps)

lemma pow2_pos: "0 < pow2 k"
  by (simp add: pow2_powi)

lemma pow2_mono: "a \<le> b \<Longrightarrow> pow2 a \<le> pow2 b"
  by (simp add: pow2_powi power_int_increasing)

lemma pow2_diff: "pow2 (a - b) = pow2 a / pow2 b"
  by (simp add: pow2_powi power_int_diff)

lemma floor_log2_le:
  assumes "0 < q"
  shows "pow2 (floor_log2 q) \<le> q"
proof -
  obtain n d where nd: "quotient_of q = (n, d)"
    by (cases "quotient_of q")
  have d: "0 < d"
    using quotient_of_denom_pos[OF nd] .
  have q: "q = of_int n / of_int d"
    using quotient_of_div[OF nd] .
  have n: "0 < n"
    using assms d by (simp add: q zero_less_divide_iff)
  let ?k = "bitlen n - bitlen d"
  have bn: "1 \<le> bitlen n" and bd: "1 \<le> bitlen d"
    using n d by (simp_all add: bitlen_alt_def)
  have "2 ^ nat (bitlen n - 1) \<le> n"
    using bitlen_bounds[OF n] by simp
  then have "(of_int (2 ^ nat (bitlen n - 1)) :: rat) \<le> of_int n"
    by (rule of_int_le_iff[THEN iffD2])
  then have lo: "pow2 (bitlen n - 1) \<le> of_int n"
    using bn by (simp add: pow2_def)
  have "d < 2 ^ nat (bitlen d)"
    using bitlen_bounds[OF d] by simp
  then have "(of_int d :: rat) < of_int (2 ^ nat (bitlen d))"
    by (rule of_int_less_iff[THEN iffD2])
  then have hi: "of_int d \<le> pow2 (bitlen d)"
    using bd by (simp add: pow2_def)
  have "pow2 (?k - 1) = pow2 (bitlen n - 1) / pow2 (bitlen d)"
    using pow2_diff[of "bitlen n - 1" "bitlen d"] by (simp add: algebra_simps)
  also have "\<dots> \<le> of_int n / pow2 (bitlen d)"
    using lo pow2_pos[of "bitlen d"] by (simp add: divide_right_mono)
  also have "\<dots> \<le> of_int n / of_int d"
    using hi d n by (simp add: divide_left_mono)
  finally have "pow2 (?k - 1) \<le> q"
    by (simp add: q)
  then show ?thesis
    by (simp add: floor_log2_def nd Let_def)
qed

lemma round_half_even_ge_1: "1 \<le> x \<Longrightarrow> 1 \<le> round_half_even x"
proof -
  assume "1 \<le> x"
  then have "1 \<le> \<lfloor>x\<rfloor>" by (simp add: le_floor_iff)
  then show ?thesis by (simp add: round_half_even_def Let_def)
qed

lemma Number_value_positive:
  assumes "pow2 (- 1074) \<le> q"
  shows "Number_value q = PosInfinity \<or> (\<exists>v. 0 < v \<and> Number_value q = Finite v)"
proof -
  have q: "0 < q"
    using assms pow2_pos[of "- 1074"] by simp
  define p where "p = max (floor_log2 q) (- 1022) - 52"
  have "pow2 p \<le> q"
  proof (cases "- 1022 \<le> floor_log2 q")
    case True
    then have "p \<le> floor_log2 q" by (simp add: p_def)
    then have "pow2 p \<le> pow2 (floor_log2 q)" by (rule pow2_mono)
    then show ?thesis using floor_log2_le[OF q] by simp
  next
    case False
    then have "p = - 1074" by (simp add: p_def)
    then show ?thesis using assms by simp
  qed
  then have "1 \<le> q / pow2 p"
    using pow2_pos[of p] by (simp add: le_divide_eq)
  then have "1 \<le> round_half_even (q / pow2 p)"
    by (rule round_half_even_ge_1)
  then have "0 < (of_int (round_half_even (q / pow2 p)) :: rat) * pow2 p"
    using pow2_pos[of p] by simp
  then show ?thesis
    using q by (simp add: Number_value_def Let_def p_def[symmetric])
qed

lemma Number_value_of_int_positive:
  assumes "0 < n"
  shows "Number_value (of_int n) = PosInfinity \<or> (\<exists>v. 0 < v \<and> Number_value (of_int n) = Finite v)"
proof (rule Number_value_positive)
  have "pow2 (- 1074) \<le> pow2 0" by (rule pow2_mono) simp
  also have "\<dots> = 1" by (simp add: pow2_def)
  also have "\<dots> \<le> of_int n" using assms by simp
  finally show "pow2 (- 1074) \<le> of_int n" .
qed

section \<open>The numeric prefix of an amount\<close>

lemma replace_first:
  "p \<notin> set s \<Longrightarrow> replace p r (s @ p # t) = s @ r @ t"
  by (induction s) auto

lemma replace_after:
  "p \<notin> set s \<Longrightarrow> replace p r (s @ t) = s @ replace p r t"
  by (induction s) auto

lemma is_digit_not_comma: "is_digit c \<Longrightarrow> c \<noteq> CHR '',''"
  by (auto simp: is_digit_def)

lemma TrimStart_digit: "is_digit c \<Longrightarrow> TrimStart (c # s) = c # s"
proof (cases s)
  case Nil
  assume "is_digit c"
  then show ?thesis using Nil by (simp add: is_digit_def is_ws1_def)
next
  case (Cons d s1)
  assume c: "is_digit c"
  show ?thesis
  proof (cases s1)
    case Nil
    then show ?thesis using c Cons by (simp add: is_digit_def is_ws1_def is_ws2_def)
  next
    case (Cons e s2)
    then show ?thesis
      using c \<open>s = d # s1\<close> by (simp add: is_digit_def is_ws1_def is_ws2_def is_ws3_def Let_def)
  qed
qed

lemma decimal_prefix_digits:
  assumes "ds \<noteq> []" and "\<forall>x \<in> set ds. is_digit x"
  shows "decimal_prefix ds = Some (of_int (digits_value ds))"
proof -
  have tw: "takeWhile is_digit ds = ds" and dw: "dropWhile is_digit ds = []"
    using assms(2) by simp_all
  show ?thesis using assms(1) by (simp add: decimal_prefix_def Let_def tw dw)
qed

lemma decimal_prefix_digits_then:
  assumes "ds \<noteq> []" and "\<forall>x \<in> set ds. is_digit x" and "\<not> is_digit c"
    and "c \<noteq> CHR ''.''" and "c \<noteq> CHR ''e''" and "c \<noteq> CHR ''E''"
  shows "decimal_prefix (ds @ c # t) = Some (of_int (digits_value ds))"
proof -
  have "takeWhile is_digit (ds @ c # t) = ds"
    using assms(2,3) by simp
  moreover have "dropWhile is_digit (ds @ c # t) = c # t"
    using assms(2,3) by simp
  moreover have "ExponentPart (c # t) = 0"
    using assms(5,6) by (simp add: ExponentPart_def)
  ultimately show ?thesis
    using assms(1,4) by (simp add: decimal_prefix_def pow10_def Let_def)
qed

lemma parseFloat_unsigned:
  assumes "is_digit d"
  shows "parseFloat (d # s) =
     (case decimal_prefix (d # s) of None \<Rightarrow> NaN | Some q \<Rightarrow> Number_value q)"
proof -
  have "d \<noteq> CHR ''-''" "d \<noteq> CHR ''+''" "d \<noteq> CHR ''I''"
    using assms by (auto simp: is_digit_def)
  then show ?thesis
    by (simp add: parseFloat_def TrimStart_digit[OF assms] StrUnsignedDecimalLiteral_def)
qed

lemma parseFloat_digits:
  assumes "ds \<noteq> []" and "\<forall>x \<in> set ds. is_digit x"
  shows "parseFloat ds = Number_value (of_int (digits_value ds))"
proof -
  obtain d s where ds: "ds = d # s" using assms(1) by (cases ds) auto
  then have "is_digit d" using assms(2) by simp
  from parseFloat_unsigned[OF this, of s] show ?thesis
    using decimal_prefix_digits[OF assms] by (simp add: ds)
qed

lemma parseFloat_digits_then:
  assumes "ds \<noteq> []" and "\<forall>x \<in> set ds. is_digit x" and "\<not> is_digit c"
    and "c \<noteq> CHR ''.''" and "c \<noteq> CHR ''e''" and "c \<noteq> CHR ''E''"
  shows "parseFloat (ds @ c # t) = Number_value (of_int (digits_value ds))"
proof -
  obtain d s where ds: "ds = d # s" using assms(1) by (cases ds) auto
  then have "is_digit d" using assms(2) by simp
  from parseFloat_unsigned[OF this, of "s @ c # t"] show ?thesis
    using decimal_prefix_digits_then[OF assms, of t] by (simp add: ds)
qed

lemma digits_then_replace:
  assumes "\<forall>x \<in> set ds. is_digit x" and "c \<noteq> CHR '',''"
  shows "replace CHR '','' ''.'' (ds @ c # t) = ds @ c # replace CHR '','' ''.'' t"
proof -
  have "CHR '','' \<notin> set ds"
    using assms(1) is_digit_not_comma by blast
  then show ?thesis
    using assms(2) by (simp add: replace_after)
qed

lemma accepted_number:
  "n = PosInfinity \<or> (\<exists>v. 0 < v \<and> n = Finite v) \<Longrightarrow>
   \<not> isNaN n \<and> \<not> num_le n (Finite 0)"
  by (auto simp: isNaN_def)

lemma digits_prefix_valid:
  assumes "description f \<noteq> []" and "accountId f \<noteq> []" and "categoryId f \<noteq> []"
    and "ds \<noteq> []" and "list_all is_digit ds" and "0 < digits_value ds"
    and "\<not> is_digit c" and "c \<noteq> CHR ''.''" and "c \<noteq> CHR ''e''" and "c \<noteq> CHR ''E''"
    and "c \<noteq> CHR '',''"
  shows "valid_draft (f\<lparr>amount := ds @ c # t\<rparr>)"
    and "numericAmount (f\<lparr>amount := ds @ c # t\<rparr>) = parseFloat ds"
proof -
  have d: "\<forall>x \<in> set ds. is_digit x"
    using assms(5) by (simp add: list_all_iff)
  have r: "replace CHR '','' ''.'' (ds @ c # t) = ds @ c # replace CHR '','' ''.'' t"
    using d assms(11) by (rule digits_then_replace)
  have n: "numericAmount (f\<lparr>amount := ds @ c # t\<rparr>) = Number_value (of_int (digits_value ds))"
    using parseFloat_digits_then[OF assms(4) d assms(7-10)]
    by (simp add: r numericAmount_amount)
  show "numericAmount (f\<lparr>amount := ds @ c # t\<rparr>) = parseFloat ds"
    using parseFloat_digits[OF assms(4) d] by (simp only: n)
  have "\<not> isNaN (numericAmount (f\<lparr>amount := ds @ c # t\<rparr>))
      \<and> \<not> num_le (numericAmount (f\<lparr>amount := ds @ c # t\<rparr>)) (Finite 0)"
    unfolding n by (rule accepted_number) (rule Number_value_of_int_positive[OF assms(6)])
  then show "valid_draft (f\<lparr>amount := ds @ c # t\<rparr>)"
    using assms(1-4) by (simp add: valid_draft_def)
qed

text \<open>
  C10.  The check of the amount lets through strings that are not decimal numerals, and
  the store receives the number of their numeric prefix.  In general: with the other
  required fields filled in, an amount made of decimal digits of a positive value,
  then a character that is neither a digit nor one of \<open>. e E ,\<close>, then anything, is
  submitted, and the amount sent is what \<open>parseFloat\<close> reads from the digits alone.  Only
  the first comma of an amount becomes a point.  So \<open>10abc\<close> is submitted as 10 and
  \<open>1,5,9\<close>, which becomes \<open>1.5,9\<close>, as 1.5.
\<close>

theorem C10_numeric_prefix_submitted:
  assumes "description f \<noteq> []" and "accountId f \<noteq> []" and "categoryId f \<noteq> []"
    and "ds \<noteq> []" and "list_all is_digit ds" and "0 < digits_value ds"
    and "\<not> is_digit c" and "c \<noteq> CHR ''.''" and "c \<noteq> CHR ''e''" and "c \<noteq> CHR ''E''"
    and "c \<noteq> CHR '',''"
  shows "filter is_create
           (effects (handleSubmit createTransaction today (f\<lparr>amount := ds @ c # t\<rparr>))) =
          [CreateTransaction (payload (f\<lparr>amount := ds @ c # t\<rparr>))]
         \<and> tx_amount (payload (f\<lparr>amount := ds @ c # t\<rparr>)) = parseFloat ds
         \<and> filter is_create
              (effects (handleSubmit createTransaction today (f\<lparr>amount := ''10abc''\<rparr>))) =
             [CreateTransaction (payload (f\<lparr>amount := ''10abc''\<rparr>))]
         \<and> tx_amount (payload (f\<lparr>amount := ''10abc''\<rparr>)) = Finite 10
         \<and> replace CHR '','' ''.'' ''1,5,9'' = ''1.5,9''
         \<and> filter is_create
              (effects (handleSubmit createTransaction today (f\<lparr>amount := ''1,5,9''\<rparr>))) =
             [CreateTransaction (payload (f\<lparr>amount := ''1,5,9''\<rparr>))]
         \<and> tx_amount (payload (f\<lparr>amount := ''1,5,9''\<rparr>)) = Finite (3 / 2)
         \<and> (\<forall>s r. CHR '','' \<notin> set s \<longrightarrow>
               replace CHR '','' ''.'' (s @ CHR '','' # r) = s @ CHR ''.'' # r)"
proof (intro conjI allI impI)
  note v = digits_prefix_valid[OF assms, of t]
  show "filter is_create
           (effects (handleSubmit createTransaction today (f\<lparr>amount := ds @ c # t\<rparr>))) =
          [CreateTransaction (payload (f\<lparr>amount := ds @ c # t\<rparr>))]"
    by (rule handleSubmit_valid_effects[OF v(1)])
  show "tx_amount (payload (f\<lparr>amount := ds @ c # t\<rparr>)) = parseFloat ds"
    using v(2) by (simp add: payload_def)
  have a: "parseFloat (replace CHR '','' ''.'' ''10abc'') = Finite 10"
    by (simp add: parse_10abc)
  have b: "parseFloat (replace CHR '','' ''.'' ''1,5,9'') = Finite (3 / 2)"
    by (simp add: parse_1_5_9)
  note A = accepted_amount[OF assms(1-3) _ a, of createTransaction today]
  note B = accepted_amount[OF assms(1-3) _ b, of createTransaction today]
  show "filter is_create
          (effects (handleSubmit createTransaction today (f\<lparr>amount := ''10abc''\<rparr>))) =
        [CreateTransaction (payload (f\<lparr>amount := ''10abc''\<rparr>))]"
    and "tx_amount (payload (f\<lparr>amount := ''10abc''\<rparr>)) = Finite 10"
    using A by simp_all
  show "filter is_create
          (effects (handleSubmit createTransaction today (f\<lparr>amount := ''1,5,9''\<rparr>))) =
        [CreateTransaction (payload (f\<lparr>amount := ''1,5,9''\<rparr>))]"
    and "tx_amount (payload (f\<lparr>amount := ''1,5,9''\<rparr>)) = Finite (3 / 2)"
    using B by simp_all
  show "replace CHR '','' ''.'' ''1,5,9'' = ''1.5,9''"
    by simp
next
  fix s r
  assume "CHR '','' \<notin> set s"
  then show "replace CHR '','' ''.'' (s @ CHR '','' # r) = s @ CHR ''.'' # r"
    by (simp add: replace_first)
qed

theorem C10_numeric_prefix_submitted_witness:
  "description sample_form \<noteq> [] \<and> accountId sample_form \<noteq> [] \<and> categoryId sample_form \<noteq> []
   \<and> ''10'' \<noteq> [] \<and> list_all is_digit ''10'' \<and> 0 < digits_value ''10''
   \<and> \<not> is_digit CHR ''a'' \<and> CHR ''a'' \<noteq> CHR ''.'' \<and> CHR ''a'' \<noteq> CHR ''e''
   \<and> CHR ''a'' \<noteq> CHR ''E'' \<and> CHR ''a'' \<noteq> CHR '',''
   \<and> filter is_create
        (effects (handleSubmit store_accepts ''2024-05-02'' (sample_form\<lparr>amount := ''10abc''\<rparr>))) =
       [CreateTransaction (payload (sample_form\<lparr>amount := ''10abc''\<rparr>))]
   \<and> tx_amount (payload (sample_form\<lparr>amount := ''10abc''\<rparr>)) = parseFloat ''10''
   \<and> tx_amount (payload (sample_form\<lparr>amount := ''10abc''\<rparr>)) = Finite 10
   \<and> tx_amount (payload (sample_form\<lparr>amount := ''1,5,9''\<rparr>)) = Finite (3 / 2)"
proof -
  have h: "description sample_form \<noteq> []" "accountId sample_form \<noteq> []"
    "categoryId sample_form \<noteq> []"
    by (simp_all add: sample_form_def)
  have d: "''10'' \<noteq> []" "list_all is_digit ''10''" "0 < digits_value ''10''"
    by (simp_all add: is_digit_def digits_value_def digit_value_def)
  have c: "\<not> is_digit CHR ''a''" "CHR ''a'' \<noteq> CHR ''.''" "CHR ''a'' \<noteq> CHR ''e''"
    "CHR ''a'' \<noteq> CHR ''E''" "CHR ''a'' \<noteq> CHR '',''"
    by (simp_all add: is_digit_def)
  note r = C10_numeric_prefix_submitted
    [where f = sample_form and ds = "''10''" and c = "CHR ''a''" and t = "''bc''"
       and createTransaction = store_accepts and today = "''2024-05-02''", OF h d c]
  have r1: "filter is_create
        (effects (handleSubmit store_accepts ''2024-05-02'' (sample_form\<lparr>amount := ''10abc''\<rparr>))) =
       [CreateTransaction (payload (sample_form\<lparr>amount := ''10abc''\<rparr>))]"
    using r by blast
  have r2: "tx_amount (payload (sample_form\<lparr>amount := ''10abc''\<rparr>)) = parseFloat ''10''"
    using r[THEN conjunct2, THEN conjunct1] by simp
  have r3: "tx_amount (payload (sample_form\<lparr>amount := ''10abc''\<rparr>)) = Finite 10"
    using r by blast
  have r4: "tx_amount (payload (sample_form\<lparr>amount := ''1,5,9''\<rparr>)) = Finite (3 / 2)"
    using r by blast
  show ?thesis
    by (intro conjI) (fact h d c r1 r2 r3 r4)+
qed

end
